theory Spec2Isabelle
  imports Complex_Main
begin

section \<open>Python values used by chatbotwithvoice.py\<close>

text \<open>
  A Python \<open>str\<close> is a sequence of Unicode code points, so texts are lists of code
  points; \<open>ascii\<close> embeds an ASCII literal.
\<close>

type_synonym pystr = "nat list"

definition ascii :: "string \<Rightarrow> pystr" where
  "ascii s = map of_char s"

text \<open>
  \<open>str.isspace\<close> for one code point: the characters CPython treats as whitespace
  (TAB..CR, FS..US, SPACE, NEL, NBSP, OGHAM SPACE MARK, EN QUAD..HAIR SPACE, LINE and
  PARAGRAPH SEPARATOR, NARROW NBSP, MEDIUM MATHEMATICAL SPACE, IDEOGRAPHIC SPACE).
\<close>

definition isspace :: "nat \<Rightarrow> bool" where
  "isspace c \<longleftrightarrow>
     (9 \<le> c \<and> c \<le> 13) \<or> (28 \<le> c \<and> c \<le> 32) \<or> c = 133 \<or> c = 160 \<or> c = 5760 \<or>
     (8192 \<le> c \<and> c \<le> 8202) \<or> c = 8232 \<or> c = 8233 \<or> c = 8239 \<or> c = 8287 \<or> c = 12288"

text \<open>\<open>s.strip()\<close>: drop the leading and the trailing whitespace.\<close>

definition strip :: "pystr \<Rightarrow> pystr" where
  "strip s = rev (dropWhile isspace (rev (dropWhile isspace s)))"

text \<open>
  Exceptions. Every handler of the program is \<open>except Exception\<close>, so the class only
  matters for the message shown; the classes the program can raise itself are named.
\<close>

datatype exn =
    Exception pystr
  | FileNotFoundError pystr
  | FileExistsError pystr
  | IndexError
  | AttributeError

section \<open>Data model\<close>

datatype role = System | User | Assistant

text \<open>One message dict \<open>{"role": ..., "content": ...}\<close>.\<close>

record turn =
  role :: role
  content :: pystr

text \<open>The two keys of \<open>st.session_state\<close>.\<close>

record session_state =
  messages :: "turn list"
  last_record_path :: "pystr option"

text \<open>Lines 59-62, on the first run of a browser session.\<close>

definition system_prompt :: pystr where
  "system_prompt = ascii ''You are a helpful, concise AI assistant.''"

definition system_turn :: turn where
  "system_turn = \<lparr>role = System, content = system_prompt\<rparr>"

definition initial_session :: session_state where
  "initial_session = \<lparr>messages = [system_turn], last_record_path = None\<rparr>"

text \<open>
  The keyword arguments of \<open>client.chat.completions.create\<close>. The temperature literal
  \<open>0.6\<close> is kept as the decimal fraction it denotes.
\<close>

record chat_request =
  chat_model :: pystr
  chat_messages :: "turn list"
  chat_temperature :: rat

text \<open>
  A file on disk: the empty file \<open>NamedTemporaryFile\<close> creates, or a WAV file holding
  a sample rate and the recorded frames (each frame one sample per channel). The
  sample type is left open: no function here looks inside a sample.
\<close>

datatype 's disk_file = Empty_file | Wav_file int "'s list list"

type_synonym 's filesystem = "pystr \<rightharpoonup> 's disk_file"

text \<open>The sidebar widgets (lines 134-137).\<close>

record settings =
  model :: pystr
  tts_rate :: int
  record_seconds :: int
  auto_speak :: bool

definition chat_model_options :: "pystr list" where
  "chat_model_options = [ascii ''gpt-4o-mini'']"

section \<open>What the program shows and which external calls it makes\<close>

datatype notice =
    Not_installed
  | Sd_not_available
  | Recording_failed exn
  | Transcription_error exn
  | OpenAI_call_failed exn
  | TTS_error exn
  | Recording_for int
  | Recording_finished
  | Saved_file pystr
  | Transcribing
  | Could_not_transcribe
  | Cleared_last_recording

datatype level = Error | Warning | Info | Success | Markdown

datatype event =
    Ui level notice
  | Audio pystr
  | Chat_message role pystr
  | Chat_request chat_request
  | Transcription_request pystr pystr
  | Os_remove pystr
  | Speak pystr int
  | Rerun

section \<open>The environment: libraries, devices and remote services\<close>

text \<open>
  Everything outside the program is a field of the environment: the two import flags,
  the sound device (\<open>sd.rec\<close>, \<open>sd.wait\<close>), the temporary-file name and the WAV
  writer, the deletion permission, the two OpenAI endpoints and the speech engine.
  A call that raises returns the exception.
\<close>

record 's env =
  have_sounddevice :: bool
  have_tts :: bool
  sd_rec :: "int \<Rightarrow> int \<Rightarrow> nat \<Rightarrow> exn + 's list list"
  sd_wait :: "exn option"
  named_temporary_file :: "exn + pystr"
  sf_write :: "pystr \<Rightarrow> 's list list \<Rightarrow> int \<Rightarrow> exn option"
  os_remove_error :: "pystr \<Rightarrow> exn option"
  transcriptions_create :: "pystr \<Rightarrow> 's disk_file \<Rightarrow> exn + pystr"
  chat_completions_create :: "chat_request \<Rightarrow> exn + pystr option list"
  pyttsx3_say :: "pystr \<Rightarrow> int \<Rightarrow> exn option"

text \<open>
  The state a handler works on: session state, disk, and the output so far. Streamlit
  runs the script from top to bottom on each interaction and each handler runs to its
  end before the next starts; the display calls (\<open>st.info\<close>, \<open>st.markdown\<close>,
  \<open>st.chat_message\<close>, ...) only add to the output and return.
\<close>

record 's app =
  session :: session_state
  files :: "'s filesystem"
  out :: "event list"

text \<open>\<open>st.session_state["messages"].append(turn)\<close> (lines 176, 184, 206, 215).\<close>

definition append_turn :: "turn list \<Rightarrow> turn \<Rightarrow> turn list" where
  "append_turn msgs t = msgs @ [t]"

section \<open>Helpers (lines 67-128)\<close>

definition default_samplerate :: int where
  "default_samplerate = 44100"

text \<open>
  \<open>record_local\<close>: returns the path (or None), the disk and the messages shown.
  \<open>int(duration_seconds * samplerate)\<close> is the product itself, both being ints.
  \<open>NamedTemporaryFile\<close> creates the file exclusively, so a name already on disk is
  an error.
\<close>

definition record_local ::
  "'s env \<Rightarrow> int \<Rightarrow> int \<Rightarrow> 's filesystem \<Rightarrow> pystr option \<times> 's filesystem \<times> event list" where
  "record_local env duration_seconds samplerate fs =
     (if \<not> have_sounddevice env then (None, fs, [Ui Error Not_installed])
      else
        case sd_rec env (duration_seconds * samplerate) samplerate 1 of
          Inl e \<Rightarrow> (None, fs, [Ui Error (Recording_failed e)])
        | Inr recording \<Rightarrow>
            (case sd_wait env of
               Some e \<Rightarrow> (None, fs, [Ui Error (Recording_failed e)])
             | None \<Rightarrow>
                 (case named_temporary_file env of
                    Inl e \<Rightarrow> (None, fs, [Ui Error (Recording_failed e)])
                  | Inr tmp \<Rightarrow>
                      if tmp \<in> dom fs
                      then (None, fs, [Ui Error (Recording_failed (FileExistsError tmp))])
                      else
                        (case sf_write env tmp recording samplerate of
                           Some e \<Rightarrow>
                             (None, fs(tmp \<mapsto> Empty_file), [Ui Error (Recording_failed e)])
                         | None \<Rightarrow>
                             (Some tmp, fs(tmp \<mapsto> Wav_file samplerate recording), [])))))"

definition transcribe_model :: pystr where
  "transcribe_model = ascii ''gpt-4o-mini-transcribe''"

definition transcribe_with_openai_whisper ::
  "'s env \<Rightarrow> 's filesystem \<Rightarrow> pystr \<Rightarrow> pystr option \<times> event list" where
  "transcribe_with_openai_whisper env fs wav_path =
     (case fs wav_path of
        None \<Rightarrow> (None, [Ui Error (Transcription_error (FileNotFoundError wav_path))])
      | Some f \<Rightarrow>
          (case transcriptions_create env transcribe_model f of
             Inl e \<Rightarrow>
               (None, [Transcription_request transcribe_model wav_path,
                       Ui Error (Transcription_error e)])
           | Inr text \<Rightarrow>
               (Some (strip text), [Transcription_request transcribe_model wav_path])))"

definition speak_text_local :: "'s env \<Rightarrow> pystr \<Rightarrow> int \<Rightarrow> bool \<times> event list" where
  "speak_text_local env text rate =
     (if \<not> have_tts env then (False, [])
      else
        case pyttsx3_say env text rate of
          Some e \<Rightarrow> (False, [Ui Warning (TTS_error e)])
        | None \<Rightarrow> (True, [Speak text rate]))"

definition gpt_4o_mini :: pystr where
  "gpt_4o_mini = ascii ''gpt-4o-mini''"

definition completion_request :: "turn list \<Rightarrow> chat_request" where
  "completion_request msgs =
     \<lparr>chat_model = gpt_4o_mini, chat_messages = msgs, chat_temperature = 6 / 10\<rparr>"

text \<open>
  \<open>call_openai_chat\<close>: \<open>response.choices[0]\<close> raises IndexError on no choice and
  \<open>.content.strip()\<close> raises AttributeError on a None content; both are caught like
  an error of the call itself.
\<close>

definition call_openai_chat :: "'s env \<Rightarrow> turn list \<Rightarrow> pystr option \<times> event list" where
  "call_openai_chat env msgs =
     (case chat_completions_create env (completion_request msgs) of
        Inl e \<Rightarrow> (None, [Chat_request (completion_request msgs), Ui Error (OpenAI_call_failed e)])
      | Inr choices \<Rightarrow>
          (case choices of
             [] \<Rightarrow>
               (None, [Chat_request (completion_request msgs),
                       Ui Error (OpenAI_call_failed IndexError)])
           | c # _ \<Rightarrow>
               (case c of
                  None \<Rightarrow>
                    (None, [Chat_request (completion_request msgs),
                            Ui Error (OpenAI_call_failed AttributeError)])
                | Some text \<Rightarrow> (Some (strip text), [Chat_request (completion_request msgs)]))))"

text \<open>\<open>os.remove\<close> inside \<open>try ... except Exception: pass\<close>.\<close>

definition os_remove :: "'s env \<Rightarrow> pystr \<Rightarrow> 's filesystem \<Rightarrow> exn option \<times> 's filesystem" where
  "os_remove env p fs =
     (if p \<notin> dom fs then (Some (FileNotFoundError p), fs)
      else
        case os_remove_error env p of
          Some e \<Rightarrow> (Some e, fs)
        | None \<Rightarrow> (None, fs(p := None)))"

section \<open>The handlers of the script (lines 158-225)\<close>

text \<open>The placeholder reply: WARNING SIGN, VARIATION SELECTOR-16, then the text.\<close>

definition placeholder_reply :: pystr where
  "placeholder_reply = [9888, 65039] @ ascii '' Could not get a reply from OpenAI.''"

definition voice_prefix :: pystr where
  "voice_prefix = ascii ''**(Voice)** ''"

text \<open>The body of \<open>if st.button("Record")\<close>, lines 159-189.\<close>

definition record_button :: "'s env \<Rightarrow> settings \<Rightarrow> 's app \<Rightarrow> 's app" where
  "record_button env w a =
     (if \<not> have_sounddevice env then a\<lparr>out := out a @ [Ui Error Sd_not_available]\<rparr>
      else
        case record_local env (record_seconds w) default_samplerate (files a) of
          (wav_path, fs1, ev1) \<Rightarrow>
            let a1 = a\<lparr>files := fs1,
                       out := out a @ [Ui Info (Recording_for (record_seconds w))] @ ev1\<rparr>
            in
              (case wav_path of
                 None \<Rightarrow> a1
               | Some p \<Rightarrow>
                   if p = [] then a1
                   else
                     case transcribe_with_openai_whisper env fs1 p of
                       (text, ev2) \<Rightarrow>
                         let a2 = a1\<lparr>session := (session a1)\<lparr>last_record_path := Some p\<rparr>,
                                     out := out a1 @
                                       [Ui Success Recording_finished, Audio p,
                                        Ui Markdown (Saved_file p), Ui Info Transcribing] @ ev2\<rparr>
                         in
                           (case text of
                              None \<Rightarrow> a2\<lparr>out := out a2 @ [Ui Warning Could_not_transcribe]\<rparr>
                            | Some user_input \<Rightarrow>
                                if user_input = []
                                then a2\<lparr>out := out a2 @ [Ui Warning Could_not_transcribe]\<rparr>
                                else
                                  let msgs1 = append_turn (messages (session a2))
                                        \<lparr>role = User, content = user_input\<rparr>
                                  in
                                    case call_openai_chat env msgs1 of
                                      (reply0, ev3) \<Rightarrow>
                                        let reply = (case reply0 of
                                                       None \<Rightarrow> placeholder_reply
                                                     | Some r \<Rightarrow> r);
                                            msgs2 = append_turn msgs1
                                              \<lparr>role = Assistant, content = reply\<rparr>;
                                            ev4 = (if auto_speak w \<and> have_tts env
                                                   then snd (speak_text_local env reply (tts_rate w))
                                                   else [])
                                        in a2\<lparr>session := (session a2)\<lparr>messages := msgs2\<rparr>,
                                              out := out a2 @
                                                [Chat_message User (voice_prefix @ user_input)] @
                                                ev3 @ [Chat_message Assistant reply] @ ev4\<rparr>)))"

text \<open>The body of \<open>if st.button("Clear last recording")\<close>, lines 192-198.\<close>

definition clear_last_recording :: "'s env \<Rightarrow> 's app \<Rightarrow> 's app" where
  "clear_last_recording env a =
     (let (fs1, ev) =
            (case last_record_path (session a) of
               None \<Rightarrow> (files a, [])
             | Some p \<Rightarrow>
                 if p = [] then (files a, [])
                 else (snd (os_remove env p (files a)), [Os_remove p]))
      in a\<lparr>session := (session a)\<lparr>last_record_path := None\<rparr>,
            files := fs1,
            out := out a @ ev @ [Ui Info Cleared_last_recording]\<rparr>)"

text \<open>
  Lines 203-217, with the value of \<open>st.chat_input\<close> (None when nothing was
  submitted) as \<open>text_input\<close>.
\<close>

definition text_chat :: "'s env \<Rightarrow> settings \<Rightarrow> pystr option \<Rightarrow> 's app \<Rightarrow> 's app" where
  "text_chat env w text_input a =
     (case text_input of
        None \<Rightarrow> a
      | Some t \<Rightarrow>
          if t = [] then a
          else
            let user_text = strip t;
                msgs1 = append_turn (messages (session a)) \<lparr>role = User, content = user_text\<rparr>
            in
              case call_openai_chat env msgs1 of
                (reply0, ev) \<Rightarrow>
                  let reply = (case reply0 of None \<Rightarrow> placeholder_reply | Some r \<Rightarrow> r);
                      msgs2 = append_turn msgs1 \<lparr>role = Assistant, content = reply\<rparr>;
                      ev2 = (if auto_speak w \<and> have_tts env
                             then snd (speak_text_local env reply (tts_rate w))
                             else [])
                  in a\<lparr>session := (session a)\<lparr>messages := msgs2\<rparr>,
                        out := out a @ [Chat_message User user_text] @ ev @
                          [Chat_message Assistant reply] @ ev2\<rparr>)"

text \<open>
  The body of \<open>if st.button("Clear Chat")\<close>, lines 223-225. \<open>messages[0]\<close> raises
  IndexError on an empty list, before anything is assigned.
\<close>

definition clear_chat :: "'s app \<Rightarrow> exn + 's app" where
  "clear_chat a =
     (case messages (session a) of
        [] \<Rightarrow> Inl IndexError
      | m # _ \<Rightarrow>
          Inr (a\<lparr>session := \<lparr>messages = [m], last_record_path = None\<rparr>,
                  out := out a @ [Rerun]\<rparr>))"

text \<open>
  The states the program can be in: the first run creates the session state, and every
  later change is made by one of the four handlers, in any environment and with any
  widget values.
\<close>

inductive reachable :: "'s app \<Rightarrow> bool" where
  at_start: "reachable \<lparr>session = initial_session, files = fs, out = []\<rparr>"
| by_record: "reachable a \<Longrightarrow> reachable (record_button env w a)"
| by_clear_last: "reachable a \<Longrightarrow> reachable (clear_last_recording env a)"
| by_text: "reachable a \<Longrightarrow> reachable (text_chat env w t a)"
| by_clear_chat: "reachable a \<Longrightarrow> clear_chat a = Inr a' \<Longrightarrow> reachable a'"

section \<open>The shape of a conversation\<close>

text \<open>User and assistant turns in pairs, each user turn directly before its reply.\<close>

fun alternating :: "turn list \<Rightarrow> bool" where
  "alternating [] = True"
| "alternating [u] = False"
| "alternating (u # r # rest) = (role u = User \<and> role r = Assistant \<and> alternating rest)"

definition well_shaped :: "turn list \<Rightarrow> bool" where
  "well_shaped msgs =
     (case msgs of [] \<Rightarrow> False | s # rest \<Rightarrow> role s = System \<and> alternating rest)"

section \<open>Concrete environments and states\<close>

definition silence :: "int \<Rightarrow> nat \<Rightarrow> nat list list" where
  "silence frames channels = replicate (nat frames) (replicate channels 0)"

definition tmp_wav :: pystr where
  "tmp_wav = ascii ''/tmp/tmpb.wav''"

definition old_wav :: pystr where
  "old_wav = ascii ''/tmp/tmpa.wav''"

text \<open>Every library is installed and every call succeeds.\<close>

definition ok_env :: "nat env" where
  "ok_env =
     \<lparr>have_sounddevice = True,
      have_tts = True,
      sd_rec = (\<lambda>frames rate channels. Inr (silence frames channels)),
      sd_wait = None,
      named_temporary_file = Inr tmp_wav,
      sf_write = (\<lambda>p r sr. None),
      os_remove_error = (\<lambda>p. None),
      transcriptions_create = (\<lambda>m f. Inr (ascii '' hi '')),
      chat_completions_create = (\<lambda>req. Inr [Some (ascii ''Hi there!'')]),
      pyttsx3_say = (\<lambda>t r. None)\<rparr>"

definition timeout_exn :: exn where
  "timeout_exn = Exception (ascii ''timed out'')"

definition chat_down_env :: "nat env" where
  "chat_down_env = ok_env\<lparr>chat_completions_create := (\<lambda>req. Inl timeout_exn)\<rparr>"

definition transcription_down_env :: "nat env" where
  "transcription_down_env = ok_env\<lparr>transcriptions_create := (\<lambda>m f. Inl timeout_exn)\<rparr>"

definition no_library_env :: "nat env" where
  "no_library_env = ok_env\<lparr>have_sounddevice := False\<rparr>"

text \<open>
  The library is installed but the machine has no input device: \<open>sd.rec\<close> raises
  when it opens the stream.
\<close>

definition no_input_device_exn :: exn where
  "no_input_device_exn = Exception (ascii ''Error querying device -1'')"

definition no_input_device_env :: "nat env" where
  "no_input_device_env = ok_env\<lparr>sd_rec := (\<lambda>frames rate channels. Inl no_input_device_exn)\<rparr>"

text \<open>A device that is present and fails while recording: \<open>sd.wait\<close> raises.\<close>

definition io_error_exn :: exn where
  "io_error_exn = Exception (ascii ''Unanticipated host error'')"

definition capture_io_error_env :: "nat env" where
  "capture_io_error_env = ok_env\<lparr>sd_wait := Some io_error_exn\<rparr>"

definition demo_settings :: settings where
  "demo_settings =
     \<lparr>model = ascii ''gpt-4o-mini'', tts_rate = 160, record_seconds = 4, auto_speak = True\<rparr>"

definition no_files :: "nat filesystem" where
  "no_files = Map.empty"

definition fresh_app :: "nat app" where
  "fresh_app = \<lparr>session = initial_session, files = no_files, out = []\<rparr>"

text \<open>
  A first press of Record: the recording is saved as \<open>old_wav\<close> and its
  transcription fails, so the session holds one recording and no conversation yet.
\<close>

definition first_recording_env :: "nat env" where
  "first_recording_env = transcription_down_env\<lparr>named_temporary_file := Inr old_wav\<rparr>"

definition recorded_app :: "nat app" where
  "recorded_app = record_button first_recording_env demo_settings fresh_app"

section \<open>Facts about the helpers and the handlers\<close>

lemma strip_all_space:
  assumes "\<forall>c\<in>set t. isspace c"
  shows "strip t = []"
proof -
  from assms have d: "dropWhile isspace t = []"
    by simp
  show ?thesis
    unfolding strip_def d by simp
qed

lemma text_chat_messages:
  assumes "t \<noteq> []"
  shows "messages (session (text_chat env w (Some t) a)) =
         messages (session a) @
           [\<lparr>role = User, content = strip t\<rparr>,
            \<lparr>role = Assistant,
             content =
               (case fst (call_openai_chat env
                            (append_turn (messages (session a))
                               \<lparr>role = User, content = strip t\<rparr>)) of
                  None \<Rightarrow> placeholder_reply
                | Some r \<Rightarrow> r)\<rparr>]"
  using assms
  by (simp add: text_chat_def append_turn_def Let_def split: prod.splits)

lemma record_button_messages:
  assumes "have_sounddevice env"
    and "record_local env (record_seconds w) default_samplerate (files a) = (Some p, fs1, ev1)"
    and "p \<noteq> []"
    and "transcribe_with_openai_whisper env fs1 p = (Some u, ev2)"
    and "u \<noteq> []"
  shows "messages (session (record_button env w a)) =
         messages (session a) @
           [\<lparr>role = User, content = u\<rparr>,
            \<lparr>role = Assistant,
             content =
               (case fst (call_openai_chat env
                            (append_turn (messages (session a))
                               \<lparr>role = User, content = u\<rparr>)) of
                  None \<Rightarrow> placeholder_reply
                | Some r \<Rightarrow> r)\<rparr>]"
  using assms
  by (simp add: record_button_def append_turn_def Let_def split: prod.splits)

lemma record_button_messages_cases:
  "messages (session (record_button env w a)) = messages (session a) \<or>
   (\<exists>u r. messages (session (record_button env w a)) =
      messages (session a) @
        [\<lparr>role = User, content = u\<rparr>, \<lparr>role = Assistant, content = r\<rparr>])"
  by (simp add: record_button_def append_turn_def Let_def
      split: prod.splits option.splits)

lemma text_chat_messages_cases:
  "messages (session (text_chat env w ti a)) = messages (session a) \<or>
   (\<exists>u r. messages (session (text_chat env w ti a)) =
      messages (session a) @
        [\<lparr>role = User, content = u\<rparr>, \<lparr>role = Assistant, content = r\<rparr>])"
  by (simp add: text_chat_def append_turn_def Let_def
      split: prod.splits option.splits)

lemma clear_last_recording_messages:
  "messages (session (clear_last_recording env a)) = messages (session a)"
  by (simp add: clear_last_recording_def Let_def split: prod.splits)

lemma alternating_append_pair:
  "alternating xs \<Longrightarrow> role u = User \<Longrightarrow> role r = Assistant \<Longrightarrow> alternating (xs @ [u, r])"
  by (induction xs rule: alternating.induct) simp_all

lemma reachable_shape:
  "reachable a \<Longrightarrow> \<exists>rest. messages (session a) = system_turn # rest \<and> alternating rest"
proof (induction rule: reachable.induct)
  case (at_start fs)
  then show ?case by (simp add: initial_session_def)
next
  case (by_record a env w)
  then obtain rest where r: "messages (session a) = system_turn # rest" "alternating rest"
    by blast
  from record_button_messages_cases [of env w a] show ?case
  proof
    assume "messages (session (record_button env w a)) = messages (session a)"
    with r show ?thesis by simp
  next
    assume "\<exists>u r. messages (session (record_button env w a)) =
      messages (session a) @
        [\<lparr>role = User, content = u\<rparr>, \<lparr>role = Assistant, content = r\<rparr>]"
    then obtain u v where "messages (session (record_button env w a)) =
      system_turn # (rest @ [\<lparr>role = User, content = u\<rparr>, \<lparr>role = Assistant, content = v\<rparr>])"
      using r by auto
    moreover have "alternating (rest @ [\<lparr>role = User, content = u\<rparr>, \<lparr>role = Assistant, content = v\<rparr>])"
      using r(2) by (simp add: alternating_append_pair)
    ultimately show ?thesis by blast
  qed
next
  case (by_clear_last a env)
  then show ?case by (simp add: clear_last_recording_messages)
next
  case (by_text a env w t)
  then obtain rest where r: "messages (session a) = system_turn # rest" "alternating rest"
    by blast
  from text_chat_messages_cases [of env w t a] show ?case
  proof
    assume "messages (session (text_chat env w t a)) = messages (session a)"
    with r show ?thesis by simp
  next
    assume "\<exists>u r. messages (session (text_chat env w t a)) =
      messages (session a) @
        [\<lparr>role = User, content = u\<rparr>, \<lparr>role = Assistant, content = r\<rparr>]"
    then obtain u v where "messages (session (text_chat env w t a)) =
      system_turn # (rest @ [\<lparr>role = User, content = u\<rparr>, \<lparr>role = Assistant, content = v\<rparr>])"
      using r by auto
    moreover have "alternating (rest @ [\<lparr>role = User, content = u\<rparr>, \<lparr>role = Assistant, content = v\<rparr>])"
      using r(2) by (simp add: alternating_append_pair)
    ultimately show ?thesis by blast
  qed
next
  case (by_clear_chat a a')
  then obtain rest where r: "messages (session a) = system_turn # rest"
    by blast
  with by_clear_chat(2) have "messages (session a') = [system_turn]"
    by (auto simp: clear_chat_def)
  then show ?case by simp
qed

lemma call_openai_chat_none_iff:
  "fst (call_openai_chat env msgs) = None \<longleftrightarrow>
     (\<exists>e. chat_completions_create env (completion_request msgs) = Inl e) \<or>
     chat_completions_create env (completion_request msgs) = Inr [] \<or>
     (\<exists>others. chat_completions_create env (completion_request msgs) = Inr (None # others))"
  by (simp add: call_openai_chat_def split: sum.splits list.splits option.splits)

lemma transcribe_none_iff:
  "fst (transcribe_with_openai_whisper env fs p) = None \<longleftrightarrow>
     fs p = None \<or>
     (\<exists>f e. fs p = Some f \<and> transcriptions_create env transcribe_model f = Inl e)"
  by (simp add: transcribe_with_openai_whisper_def split: sum.splits option.splits)

lemma transcribe_empty_iff:
  "fst (transcribe_with_openai_whisper env fs p) = Some [] \<longleftrightarrow>
     (\<exists>f text. fs p = Some f \<and> transcriptions_create env transcribe_model f = Inr text \<and>
        strip text = [])"
  by (simp add: transcribe_with_openai_whisper_def split: sum.splits option.splits)

lemma strip_empty_iff: "strip t = [] \<longleftrightarrow> (\<forall>c\<in>set t. isspace c)"
proof
  assume "strip t = []"
  then have "dropWhile isspace t = []"
    by (simp add: strip_def dropWhile_eq_Nil_conv) (metis dropWhile_eq_Nil_conv hd_dropWhile list.set_sel(1))
  then show "\<forall>c\<in>set t. isspace c"
    by simp
next
  assume "\<forall>c\<in>set t. isspace c"
  then show "strip t = []"
    by (rule strip_all_space)
qed

section \<open>Evaluation of the concrete texts\<close>

lemma hello_nonempty: "ascii ''Hello'' \<noteq> []"
  by (simp add: ascii_def)

lemma tmp_wav_nonempty: "tmp_wav \<noteq> []"
  by (simp add: tmp_wav_def ascii_def)

lemma strip_hi: "strip (ascii '' hi '') = ascii ''hi''"
  by (simp add: strip_def ascii_def isspace_def)

lemma hi_nonempty: "ascii ''hi'' \<noteq> []"
  by (simp add: ascii_def)

lemma tmp_wav_not_old_wav: "tmp_wav \<noteq> old_wav"
  by (simp add: tmp_wav_def old_wav_def ascii_def)

lemma old_wav_nonempty: "old_wav \<noteq> []"
  by (simp add: old_wav_def ascii_def)

lemma spaces_are_space: "\<forall>c\<in>set (ascii ''  ''). isspace c"
  by (simp add: ascii_def isspace_def)

lemma spaces_nonempty: "ascii ''  '' \<noteq> []"
  by (simp add: ascii_def)

lemma gpt_4o_mini_option: "m \<in> set chat_model_options \<longleftrightarrow> m = gpt_4o_mini"
  by (simp add: chat_model_options_def gpt_4o_mini_def)

lemma reachable_fresh_app: "reachable fresh_app"
  by (simp add: fresh_app_def reachable.at_start)

lemma recorded_app_session:
  "session recorded_app = initial_session\<lparr>last_record_path := Some old_wav\<rparr>"
  using old_wav_nonempty
  by (simp add: recorded_app_def record_button_def record_local_def
      transcribe_with_openai_whisper_def first_recording_env_def transcription_down_env_def
      ok_env_def demo_settings_def fresh_app_def no_files_def Let_def)

lemma recorded_app_files:
  "files recorded_app =
     no_files(old_wav \<mapsto> Wav_file default_samplerate (silence (4 * default_samplerate) 1))"
  using old_wav_nonempty
  by (simp add: recorded_app_def record_button_def record_local_def
      transcribe_with_openai_whisper_def first_recording_env_def transcription_down_env_def
      ok_env_def demo_settings_def fresh_app_def no_files_def Let_def)

section \<open>Claims\<close>

text \<open>
  C1. When the chat-completion call returns no reply, the handler appends the user turn
  and then exactly one assistant turn whose content is the fixed placeholder text, and
  it returns the session with every earlier turn in place. This holds for the text
  handler on any non-empty submission, and for the Record handler once a recording and a
  usable transcript exist.
\<close>

theorem completion_failure_appends_placeholder:
  "(t \<noteq> [] \<and>
    fst (call_openai_chat env
           (append_turn (messages (session a)) \<lparr>role = User, content = strip t\<rparr>)) = None
    \<longrightarrow> messages (session (text_chat env w (Some t) a)) =
          messages (session a) @
            [\<lparr>role = User, content = strip t\<rparr>,
             \<lparr>role = Assistant, content = placeholder_reply\<rparr>]) \<and>
   (have_sounddevice env \<and>
    record_local env (record_seconds w) default_samplerate (files a) = (Some p, fsr, evr) \<and>
    p \<noteq> [] \<and>
    transcribe_with_openai_whisper env fsr p = (Some u, evt) \<and>
    u \<noteq> [] \<and>
    fst (call_openai_chat env
           (append_turn (messages (session a)) \<lparr>role = User, content = u\<rparr>)) = None
    \<longrightarrow> messages (session (record_button env w a)) =
          messages (session a) @
            [\<lparr>role = User, content = u\<rparr>,
             \<lparr>role = Assistant, content = placeholder_reply\<rparr>])"
proof (intro conjI impI)
  assume "t \<noteq> [] \<and>
    fst (call_openai_chat env
           (append_turn (messages (session a)) \<lparr>role = User, content = strip t\<rparr>)) = None"
  then show "messages (session (text_chat env w (Some t) a)) =
          messages (session a) @
            [\<lparr>role = User, content = strip t\<rparr>,
             \<lparr>role = Assistant, content = placeholder_reply\<rparr>]"
    by (simp add: text_chat_messages)
next
  assume h: "have_sounddevice env \<and>
    record_local env (record_seconds w) default_samplerate (files a) = (Some p, fsr, evr) \<and>
    p \<noteq> [] \<and>
    transcribe_with_openai_whisper env fsr p = (Some u, evt) \<and>
    u \<noteq> [] \<and>
    fst (call_openai_chat env
           (append_turn (messages (session a)) \<lparr>role = User, content = u\<rparr>)) = None"
  then have "messages (session (record_button env w a)) =
         messages (session a) @
           [\<lparr>role = User, content = u\<rparr>,
            \<lparr>role = Assistant,
             content =
               (case fst (call_openai_chat env
                            (append_turn (messages (session a))
                               \<lparr>role = User, content = u\<rparr>)) of
                  None \<Rightarrow> placeholder_reply
                | Some r \<Rightarrow> r)\<rparr>]"
    using record_button_messages [of env w a p fsr evr u evt] by simp
  with h show "messages (session (record_button env w a)) =
          messages (session a) @
            [\<lparr>role = User, content = u\<rparr>,
             \<lparr>role = Assistant, content = placeholder_reply\<rparr>]"
    by simp
qed

theorem completion_failure_appends_placeholder_witness:
  "messages (session (text_chat chat_down_env demo_settings (Some (ascii ''Hello'')) fresh_app)) =
     [system_turn,
      \<lparr>role = User, content = strip (ascii ''Hello'')\<rparr>,
      \<lparr>role = Assistant, content = placeholder_reply\<rparr>] \<and>
   messages (session (record_button chat_down_env demo_settings fresh_app)) =
     [system_turn,
      \<lparr>role = User, content = ascii ''hi''\<rparr>,
      \<lparr>role = Assistant, content = placeholder_reply\<rparr>]"
proof -
  have c: "fst (call_openai_chat chat_down_env msgs) = None" for msgs
    by (simp add: call_openai_chat_def chat_down_env_def ok_env_def)
  have d: "have_sounddevice chat_down_env"
    by (simp add: chat_down_env_def ok_env_def)
  have r: "record_local chat_down_env (record_seconds demo_settings) default_samplerate
             (files fresh_app) =
           (Some tmp_wav,
            no_files(tmp_wav \<mapsto> Wav_file default_samplerate (silence (4 * default_samplerate) 1)),
            [])"
    by (simp add: record_local_def chat_down_env_def ok_env_def demo_settings_def
        no_files_def fresh_app_def)
  have tr: "transcribe_with_openai_whisper chat_down_env
              (no_files(tmp_wav \<mapsto> Wav_file default_samplerate (silence (4 * default_samplerate) 1)))
              tmp_wav =
            (Some (ascii ''hi''), [Transcription_request transcribe_model tmp_wav])"
    by (simp add: transcribe_with_openai_whisper_def chat_down_env_def ok_env_def strip_hi)
  have m: "messages (session fresh_app) = [system_turn]"
    by (simp add: fresh_app_def initial_session_def)
  show ?thesis
    using completion_failure_appends_placeholder
      [where t = "ascii ''Hello''" and env = chat_down_env and a = fresh_app
         and w = demo_settings and p = tmp_wav and u = "ascii ''hi''"
         and fsr = "no_files(tmp_wav \<mapsto> Wav_file default_samplerate (silence (4 * default_samplerate) 1))"
         and evr = "[]" and evt = "[Transcription_request transcribe_model tmp_wav]"]
      hello_nonempty tmp_wav_nonempty hi_nonempty c d r tr m
    by simp
qed

text \<open>
  C2. When the transcription of a finished recording returns None (the file could not be
  opened or the service raised) or the empty text, the Record handler appends no turn:
  the message list afterwards is the one before, element for element.
\<close>

theorem transcription_failure_keeps_messages:
  "have_sounddevice env \<and>
   record_local env (record_seconds w) default_samplerate (files a) = (Some p, fsr, evr) \<and>
   p \<noteq> [] \<and>
   (fst (transcribe_with_openai_whisper env fsr p) = None \<or>
    fst (transcribe_with_openai_whisper env fsr p) = Some [])
   \<longrightarrow> messages (session (record_button env w a)) = messages (session a) \<and>
       length (messages (session (record_button env w a))) = length (messages (session a))"
  by (auto simp: record_button_def Let_def split: prod.splits option.splits)

theorem transcription_failure_keeps_messages_witness:
  "fst (transcribe_with_openai_whisper transcription_down_env
          (no_files(tmp_wav \<mapsto> Wav_file default_samplerate (silence (4 * default_samplerate) 1)))
          tmp_wav) = None \<and>
   messages (session (record_button transcription_down_env demo_settings fresh_app)) =
     messages (session fresh_app)"
proof -
  have d: "have_sounddevice transcription_down_env"
    by (simp add: transcription_down_env_def ok_env_def)
  have r: "record_local transcription_down_env (record_seconds demo_settings) default_samplerate
             (files fresh_app) =
           (Some tmp_wav,
            no_files(tmp_wav \<mapsto> Wav_file default_samplerate (silence (4 * default_samplerate) 1)),
            [])"
    by (simp add: record_local_def transcription_down_env_def ok_env_def demo_settings_def
        no_files_def fresh_app_def)
  have tr: "fst (transcribe_with_openai_whisper transcription_down_env
              (no_files(tmp_wav \<mapsto> Wav_file default_samplerate (silence (4 * default_samplerate) 1)))
              tmp_wav) = None"
    by (simp add: transcribe_with_openai_whisper_def transcription_down_env_def ok_env_def)
  show ?thesis
    using transcription_failure_keeps_messages
      [where env = transcription_down_env and a = fresh_app and w = demo_settings
         and p = tmp_wav and evr = "[]"
         and fsr = "no_files(tmp_wav \<mapsto> Wav_file default_samplerate (silence (4 * default_samplerate) 1))"]
      tmp_wav_nonempty d r tr
    by simp
qed

text \<open>
  C3. In every state the program can reach, Clear Chat succeeds and leaves a message
  list of length exactly 1 whose only element has role system (with the default
  instruction as content), and it sets the current-recording pointer to None.
\<close>

theorem clear_chat_resets:
  "reachable a \<Longrightarrow>
     \<exists>a'. clear_chat a = Inr a' \<and>
          length (messages (session a')) = 1 \<and>
          role (messages (session a') ! 0) = System \<and>
          content (messages (session a') ! 0) = system_prompt \<and>
          last_record_path (session a') = None"
proof -
  assume "reachable a"
  then obtain rest where "messages (session a) = system_turn # rest"
    using reachable_shape by blast
  then show ?thesis
    by (simp add: clear_chat_def system_turn_def)
qed

theorem clear_chat_resets_witness:
  "reachable (record_button ok_env demo_settings fresh_app) \<and>
   (\<exists>a'. clear_chat (record_button ok_env demo_settings fresh_app) = Inr a' \<and>
         length (messages (session a')) = 1 \<and>
         role (messages (session a') ! 0) = System \<and>
         content (messages (session a') ! 0) = system_prompt \<and>
         last_record_path (session a') = None)"
proof -
  have r: "reachable (record_button ok_env demo_settings fresh_app)"
    by (intro reachable.by_record reachable_fresh_app)
  from clear_chat_resets [OF r] r show ?thesis
    by simp
qed

text \<open>
  C4. Appending a turn keeps all earlier turns in their order (the first
  \<open>length msgs\<close> elements of the result are \<open>msgs\<close>), makes the list exactly
  one longer, and, when the list began with a system turn, leaves a system turn at
  index 0. The two handlers that append, Record and the text input, therefore keep the
  message list they started from as a prefix of the one they leave.
\<close>

theorem append_turn_preserves:
  "take (length msgs) (append_turn msgs t) = msgs \<and>
   length (append_turn msgs t) = length msgs + 1 \<and>
   (msgs \<noteq> [] \<and> role (msgs ! 0) = System \<longrightarrow> role (append_turn msgs t ! 0) = System) \<and>
   take (length (messages (session a))) (messages (session (record_button env w a))) =
     messages (session a) \<and>
   take (length (messages (session a))) (messages (session (text_chat env w ti a))) =
     messages (session a)"
proof -
  have 1: "take (length (messages (session a))) (messages (session (record_button env w a))) =
     messages (session a)"
    using record_button_messages_cases [of env w a] by auto
  have 2: "take (length (messages (session a))) (messages (session (text_chat env w ti a))) =
     messages (session a)"
    using text_chat_messages_cases [of env w ti a] by auto
  have 3: "take (length msgs) (append_turn msgs t) = msgs \<and>
   length (append_turn msgs t) = length msgs + 1 \<and>
   (msgs \<noteq> [] \<and> role (msgs ! 0) = System \<longrightarrow> role (append_turn msgs t ! 0) = System)"
    by (cases msgs) (simp_all add: append_turn_def)
  from 1 2 3 show ?thesis
    by blast
qed

theorem append_turn_preserves_witness:
  "take (length [system_turn]) (append_turn [system_turn] \<lparr>role = User, content = ascii ''hi''\<rparr>) =
     [system_turn] \<and>
   length (append_turn [system_turn] \<lparr>role = User, content = ascii ''hi''\<rparr>) = 2 \<and>
   [system_turn] \<noteq> [] \<and> role ([system_turn] ! 0) = System \<and>
   role (append_turn [system_turn] \<lparr>role = User, content = ascii ''hi''\<rparr> ! 0) = System \<and>
   take (length (messages (session fresh_app)))
     (messages (session (record_button ok_env demo_settings fresh_app))) =
     messages (session fresh_app) \<and>
   take (length (messages (session fresh_app)))
     (messages (session (text_chat ok_env demo_settings (Some (ascii ''Hello'')) fresh_app))) =
     messages (session fresh_app)"
  using append_turn_preserves
    [where msgs = "[system_turn]" and t = "\<lparr>role = User, content = ascii ''hi''\<rparr>"
       and a = fresh_app and env = ok_env and w = demo_settings
       and ti = "Some (ascii ''Hello'')"]
  by (simp add: system_turn_def)

text \<open>
  C5. For a duration from 1 to 20 seconds and a positive sample rate, on a sound device
  that returns what \<open>sd.rec\<close> was asked for (as many frames as requested, each with the
  requested number of channels), a recording that completes is stored under the returned
  path with exactly \<open>duration_seconds * samplerate\<close> frames of one channel each.
\<close>

theorem record_local_sample_count:
  fixes env :: "'s env"
  assumes "1 \<le> d" and "d \<le> 20" and "0 < sr"
    and "\<forall>frames rate ch recording.
           sd_rec env frames rate ch = Inr recording \<longrightarrow>
           length recording = nat frames \<and> (\<forall>fr\<in>set recording. length fr = ch)"
    and "record_local env d sr fs = (Some p, fsr, evr)"
  shows "\<exists>recording.
           fsr p = Some (Wav_file sr recording) \<and>
           int (length recording) = d * sr \<and>
           (\<forall>fr\<in>set recording. length fr = 1)"
proof -
  from assms(5) obtain recording where
    s: "sd_rec env (d * sr) sr 1 = Inr recording" and
    f: "fsr p = Some (Wav_file sr recording)"
    by (auto simp: record_local_def split: if_splits sum.splits option.splits)
  from assms(4) s have l: "length recording = nat (d * sr)" and
    c: "\<forall>fr\<in>set recording. length fr = 1"
    by blast+
  from assms(1,3) have "0 \<le> d * sr"
    by simp
  with l have "int (length recording) = d * sr"
    by simp
  with f c show ?thesis
    by blast
qed

theorem record_local_sample_count_witness:
  "(1::int) \<le> 4 \<and> (4::int) \<le> 20 \<and> 0 < default_samplerate \<and>
   fst (record_local ok_env 4 default_samplerate no_files) = Some tmp_wav \<and>
   (\<exists>recording.
      fst (snd (record_local ok_env 4 default_samplerate no_files)) tmp_wav =
        Some (Wav_file default_samplerate recording) \<and>
      int (length recording) = 4 * default_samplerate \<and>
      (\<forall>fr\<in>set recording. length fr = 1))"
proof -
  have h: "\<forall>frames rate ch recording.
      sd_rec ok_env frames rate ch = Inr recording \<longrightarrow>
      length recording = nat frames \<and> (\<forall>fr\<in>set recording. length fr = ch)"
    by (auto simp: ok_env_def silence_def)
  have r: "record_local ok_env 4 default_samplerate no_files =
           (Some tmp_wav,
            no_files(tmp_wav \<mapsto> Wav_file default_samplerate (silence (4 * default_samplerate) 1)),
            [])"
    by (simp add: record_local_def ok_env_def no_files_def)
  have p: "0 < default_samplerate"
    by (simp add: default_samplerate_def)
  from record_local_sample_count [OF _ _ p h r] h r p show ?thesis
    by simp
qed

text \<open>
  C6. The claim that Record, Clear last recording and Clear Chat each delete the previous
  recording file, evaluated on a reachable session that holds the recording
  \<open>old_wav\<close>: Record makes \<open>tmp_wav\<close> the current recording and leaves
  \<open>old_wav\<close> on disk; Clear Chat sets the pointer to None and leaves \<open>old_wav\<close>
  on disk; only Clear last recording removes the file.
\<close>

theorem previous_recording_stays_on_disk:
  "reachable recorded_app \<and>
   last_record_path (session recorded_app) = Some old_wav \<and>
   files recorded_app old_wav \<noteq> None \<and>
   last_record_path (session (record_button ok_env demo_settings recorded_app)) = Some tmp_wav \<and>
   files (record_button ok_env demo_settings recorded_app) old_wav = files recorded_app old_wav \<and>
   (\<exists>a'. clear_chat recorded_app = Inr a' \<and>
         last_record_path (session a') = None \<and>
         files a' old_wav = files recorded_app old_wav) \<and>
   files (clear_last_recording ok_env recorded_app) old_wav = None"
proof -
  have 0: "reachable recorded_app"
    unfolding recorded_app_def by (intro reachable.by_record reachable_fresh_app)
  have 1: "last_record_path (session recorded_app) = Some old_wav"
    by (simp add: recorded_app_session)
  have 2: "files recorded_app old_wav \<noteq> None"
    by (simp add: recorded_app_files)
  have r: "record_local ok_env (record_seconds demo_settings) default_samplerate (files recorded_app) =
           (Some tmp_wav,
            (files recorded_app)
              (tmp_wav \<mapsto> Wav_file default_samplerate (silence (4 * default_samplerate) 1)),
            [])"
    by (simp add: record_local_def ok_env_def demo_settings_def no_files_def recorded_app_files
        tmp_wav_not_old_wav)
  have 3: "last_record_path (session (record_button ok_env demo_settings recorded_app)) = Some tmp_wav"
    using r tmp_wav_nonempty
    by (simp add: record_button_def Let_def ok_env_def split: prod.splits option.splits)
  have 4: "files (record_button ok_env demo_settings recorded_app) old_wav = files recorded_app old_wav"
    using r tmp_wav_nonempty tmp_wav_not_old_wav
    by (simp add: record_button_def Let_def ok_env_def split: prod.splits option.splits)
  have 5: "\<exists>a'. clear_chat recorded_app = Inr a' \<and>
         last_record_path (session a') = None \<and>
         files a' old_wav = files recorded_app old_wav"
    by (simp add: clear_chat_def recorded_app_session initial_session_def)
  have 6: "files (clear_last_recording ok_env recorded_app) old_wav = None"
    using old_wav_nonempty
    by (simp add: clear_last_recording_def os_remove_def recorded_app_session recorded_app_files
        ok_env_def)
  from 0 1 2 3 4 5 6 show ?thesis
    by blast
qed

text \<open>
  C7. For every message list, the completion request carries the whole list in order
  (leading system turn included), the temperature 0.6 and the model chosen in the
  sidebar, whose only option is gpt-4o-mini; when the service answers with a first
  choice holding a text, the function returns that text stripped.
\<close>

theorem call_openai_chat_request:
  "model w \<in> set chat_model_options \<Longrightarrow>
     (\<exists>evs. snd (call_openai_chat env msgs) =
        Chat_request \<lparr>chat_model = model w, chat_messages = msgs, chat_temperature = 6 / 10\<rparr> # evs) \<and>
     (\<forall>text others.
        chat_completions_create env
          \<lparr>chat_model = model w, chat_messages = msgs, chat_temperature = 6 / 10\<rparr> =
          Inr (Some text # others) \<longrightarrow>
        fst (call_openai_chat env msgs) = Some (strip text))"
proof -
  assume "model w \<in> set chat_model_options"
  then have m: "completion_request msgs =
      \<lparr>chat_model = model w, chat_messages = msgs, chat_temperature = 6 / 10\<rparr>"
    by (simp add: gpt_4o_mini_option completion_request_def)
  have "\<exists>evs. snd (call_openai_chat env msgs) = Chat_request (completion_request msgs) # evs"
    by (simp add: call_openai_chat_def split: sum.splits list.splits option.splits)
  moreover have "\<forall>text others.
        chat_completions_create env (completion_request msgs) = Inr (Some text # others) \<longrightarrow>
        fst (call_openai_chat env msgs) = Some (strip text)"
    by (simp add: call_openai_chat_def)
  ultimately show ?thesis
    unfolding m by blast
qed

theorem call_openai_chat_request_witness:
  "model demo_settings \<in> set chat_model_options \<and>
   chat_completions_create ok_env
     \<lparr>chat_model = model demo_settings, chat_messages = [system_turn],
      chat_temperature = 6 / 10\<rparr> = Inr [Some (ascii ''Hi there!'')] \<and>
   (\<exists>evs. snd (call_openai_chat ok_env [system_turn]) =
      Chat_request \<lparr>chat_model = model demo_settings, chat_messages = [system_turn],
                    chat_temperature = 6 / 10\<rparr> # evs) \<and>
   fst (call_openai_chat ok_env [system_turn]) = Some (strip (ascii ''Hi there!''))"
proof -
  have m: "model demo_settings \<in> set chat_model_options"
    by (simp add: demo_settings_def chat_model_options_def)
  have c: "chat_completions_create ok_env req = Inr [Some (ascii ''Hi there!'')]" for req
    by (simp add: ok_env_def)
  from call_openai_chat_request [OF m, of ok_env "[system_turn]"] m c show ?thesis
    by simp
qed

lemma record_button_capture_failure:
  assumes "have_sounddevice env"
    and "record_local env (record_seconds w) default_samplerate (files a) =
           (None, files a, [Ui Error (Recording_failed e)])"
  shows "record_button env w a =
           a\<lparr>out := out a @ [Ui Info (Recording_for (record_seconds w)),
                                Ui Error (Recording_failed e)]\<rparr>"
  using assms by (simp add: record_button_def)

text \<open>
  C8, as stated, fails. With the library installed, a machine without an input device
  (\<open>sd.rec\<close> raises) and a device that fails while recording (\<open>sd.wait\<close>
  raises) are handled by the same \<open>except Exception\<close> clause: \<open>record_local\<close>
  returns None with a recording-failed error in both, the Record handler leaves session
  and disk as they were in both, and a second press of Record tries the absent device
  again, so nothing has been disabled.
\<close>

theorem no_input_device_not_distinct:
  "have_sounddevice no_input_device_env \<and>
   have_sounddevice capture_io_error_env \<and>
   sd_rec no_input_device_env (4 * default_samplerate) default_samplerate 1 =
     Inl no_input_device_exn \<and>
   sd_wait capture_io_error_env = Some io_error_exn \<and>
   record_local no_input_device_env 4 default_samplerate no_files =
     (None, no_files, [Ui Error (Recording_failed no_input_device_exn)]) \<and>
   record_local capture_io_error_env 4 default_samplerate no_files =
     (None, no_files, [Ui Error (Recording_failed io_error_exn)]) \<and>
   record_button no_input_device_env demo_settings fresh_app =
     fresh_app\<lparr>out := [Ui Info (Recording_for 4),
                          Ui Error (Recording_failed no_input_device_exn)]\<rparr> \<and>
   record_button capture_io_error_env demo_settings fresh_app =
     fresh_app\<lparr>out := [Ui Info (Recording_for 4),
                          Ui Error (Recording_failed io_error_exn)]\<rparr> \<and>
   out (record_button no_input_device_env demo_settings
          (record_button no_input_device_env demo_settings fresh_app)) =
     [Ui Info (Recording_for 4), Ui Error (Recording_failed no_input_device_exn),
      Ui Info (Recording_for 4), Ui Error (Recording_failed no_input_device_exn)]"
  by (simp add: record_button_def record_local_def no_input_device_env_def
      capture_io_error_env_def ok_env_def demo_settings_def fresh_app_def)

text \<open>
  C8, amended. A missing sounddevice library is told apart by the Record handler
  through the import flag: it shows its own error and records nothing (and
  \<open>record_local\<close> itself would return None with the not-installed error). With the
  library installed, every exception raised by \<open>sd.rec\<close> or \<open>sd.wait\<close>, an
  absent input device as much as an I/O failure, makes \<open>record_local\<close> return None
  with a recording-failed error that carries the exception, and the Record handler then
  only adds those messages to the output: session and disk are unchanged and the next
  press records again.
\<close>

theorem record_failure_outcomes:
  "(\<not> have_sounddevice env \<longrightarrow>
      record_button env w a = a\<lparr>out := out a @ [Ui Error Sd_not_available]\<rparr> \<and>
      record_local env d sr fs = (None, fs, [Ui Error Not_installed])) \<and>
   (have_sounddevice env \<and>
    (sd_rec env (d * sr) sr 1 = Inl e \<or>
     (\<exists>recording. sd_rec env (d * sr) sr 1 = Inr recording) \<and> sd_wait env = Some e) \<longrightarrow>
      record_local env d sr fs = (None, fs, [Ui Error (Recording_failed e)])) \<and>
   (have_sounddevice env \<and>
    (sd_rec env (record_seconds w * default_samplerate) default_samplerate 1 = Inl e \<or>
     (\<exists>recording.
        sd_rec env (record_seconds w * default_samplerate) default_samplerate 1 = Inr recording) \<and>
     sd_wait env = Some e) \<longrightarrow>
      record_button env w a =
        a\<lparr>out := out a @ [Ui Info (Recording_for (record_seconds w)),
                             Ui Error (Recording_failed e)]\<rparr>)"
proof (intro conjI impI)
  assume "\<not> have_sounddevice env"
  then show "record_button env w a = a\<lparr>out := out a @ [Ui Error Sd_not_available]\<rparr>"
    by (simp add: record_button_def)
next
  assume "\<not> have_sounddevice env"
  then show "record_local env d sr fs = (None, fs, [Ui Error Not_installed])"
    by (simp add: record_local_def)
next
  assume "have_sounddevice env \<and>
    (sd_rec env (d * sr) sr 1 = Inl e \<or>
     (\<exists>recording. sd_rec env (d * sr) sr 1 = Inr recording) \<and> sd_wait env = Some e)"
  then show "record_local env d sr fs = (None, fs, [Ui Error (Recording_failed e)])"
    by (auto simp: record_local_def)
next
  assume h: "have_sounddevice env \<and>
    (sd_rec env (record_seconds w * default_samplerate) default_samplerate 1 = Inl e \<or>
     (\<exists>recording.
        sd_rec env (record_seconds w * default_samplerate) default_samplerate 1 = Inr recording) \<and>
     sd_wait env = Some e)"
  then have "record_local env (record_seconds w) default_samplerate (files a) =
      (None, files a, [Ui Error (Recording_failed e)])"
    by (auto simp: record_local_def)
  with h show "record_button env w a =
        a\<lparr>out := out a @ [Ui Info (Recording_for (record_seconds w)),
                             Ui Error (Recording_failed e)]\<rparr>"
    by (simp add: record_button_capture_failure)
qed

theorem record_failure_outcomes_witness:
  "record_button no_library_env demo_settings fresh_app =
     fresh_app\<lparr>out := out fresh_app @ [Ui Error Sd_not_available]\<rparr> \<and>
   record_local no_library_env 4 default_samplerate no_files =
     (None, no_files, [Ui Error Not_installed]) \<and>
   record_local no_input_device_env 4 default_samplerate no_files =
     (None, no_files, [Ui Error (Recording_failed no_input_device_exn)]) \<and>
   record_local capture_io_error_env 4 default_samplerate no_files =
     (None, no_files, [Ui Error (Recording_failed io_error_exn)]) \<and>
   record_button no_input_device_env demo_settings fresh_app =
     fresh_app\<lparr>out := out fresh_app @
       [Ui Info (Recording_for (record_seconds demo_settings)),
        Ui Error (Recording_failed no_input_device_exn)]\<rparr> \<and>
   record_button capture_io_error_env demo_settings fresh_app =
     fresh_app\<lparr>out := out fresh_app @
       [Ui Info (Recording_for (record_seconds demo_settings)),
        Ui Error (Recording_failed io_error_exn)]\<rparr>"
proof -
  have n: "\<not> have_sounddevice no_library_env"
    by (simp add: no_library_env_def ok_env_def)
  have d: "have_sounddevice no_input_device_env"
    by (simp add: no_input_device_env_def ok_env_def)
  have c: "have_sounddevice capture_io_error_env"
    by (simp add: capture_io_error_env_def ok_env_def)
  have s: "sd_rec no_input_device_env frames rate ch = Inl no_input_device_exn" for frames rate ch
    by (simp add: no_input_device_env_def ok_env_def)
  have r: "sd_rec capture_io_error_env frames rate ch = Inr (silence frames ch)" for frames rate ch
    by (simp add: capture_io_error_env_def ok_env_def)
  have k: "sd_wait capture_io_error_env = Some io_error_exn"
    by (simp add: capture_io_error_env_def ok_env_def)
  have q: "record_seconds demo_settings = 4"
    by (simp add: demo_settings_def)
  from record_failure_outcomes
         [where env = no_library_env and d = 4 and sr = default_samplerate and fs = no_files
            and w = demo_settings and a = fresh_app]
       record_failure_outcomes
         [where env = no_input_device_env and d = 4 and sr = default_samplerate
            and fs = no_files and w = demo_settings and a = fresh_app
            and e = no_input_device_exn]
       record_failure_outcomes
         [where env = capture_io_error_env and d = 4 and sr = default_samplerate
            and fs = no_files and w = demo_settings and a = fresh_app and e = io_error_exn]
       n d c s r k q
  show ?thesis
    by simp
qed

text \<open>
  C9. A non-empty submission made only of whitespace is handled: a user turn with empty
  content and then one assistant turn are appended, and a completion request for the
  list ending in that empty user turn is made. Every non-empty submission adds two
  turns; the empty submission and no submission leave the whole state as it was.
\<close>

theorem whitespace_only_submission:
  "(t \<noteq> [] \<and> (\<forall>c\<in>set t. isspace c) \<longrightarrow>
      (\<exists>reply. messages (session (text_chat env w (Some t) a)) =
         messages (session a) @
           [\<lparr>role = User, content = []\<rparr>, \<lparr>role = Assistant, content = reply\<rparr>]) \<and>
      Chat_request (completion_request (messages (session a) @ [\<lparr>role = User, content = []\<rparr>]))
        \<in> set (out (text_chat env w (Some t) a))) \<and>
   (t \<noteq> [] \<longrightarrow>
      length (messages (session (text_chat env w (Some t) a))) = length (messages (session a)) + 2) \<and>
   text_chat env w (Some []) a = a \<and>
   text_chat env w None a = a"
proof (intro conjI impI)
  assume h: "t \<noteq> [] \<and> (\<forall>c\<in>set t. isspace c)"
  then have s: "strip t = []"
    by (simp add: strip_all_space)
  from h show "\<exists>reply. messages (session (text_chat env w (Some t) a)) =
         messages (session a) @
           [\<lparr>role = User, content = []\<rparr>, \<lparr>role = Assistant, content = reply\<rparr>]"
    using text_chat_messages [of t env w a] by (simp add: s)
  have "\<exists>evs. snd (call_openai_chat env msgs) = Chat_request (completion_request msgs) # evs"
    for msgs
    by (simp add: call_openai_chat_def split: sum.splits list.splits option.splits)
  then obtain evs where
    "snd (call_openai_chat env (messages (session a) @ [\<lparr>role = User, content = []\<rparr>])) =
       Chat_request (completion_request (messages (session a) @ [\<lparr>role = User, content = []\<rparr>])) # evs"
    by blast
  with h show "Chat_request (completion_request (messages (session a) @ [\<lparr>role = User, content = []\<rparr>]))
        \<in> set (out (text_chat env w (Some t) a))"
    by (auto simp: text_chat_def append_turn_def Let_def s split: prod.splits)
next
  assume "t \<noteq> []"
  then show "length (messages (session (text_chat env w (Some t) a))) =
      length (messages (session a)) + 2"
    by (simp add: text_chat_messages)
next
  show "text_chat env w (Some []) a = a"
    by (simp add: text_chat_def)
next
  show "text_chat env w None a = a"
    by (simp add: text_chat_def)
qed

theorem whitespace_only_submission_witness:
  "ascii ''  '' \<noteq> [] \<and> list_all isspace (ascii ''  '') \<and>
   (\<exists>reply. messages (session (text_chat ok_env demo_settings (Some (ascii ''  '')) fresh_app)) =
      messages (session fresh_app) @
        [\<lparr>role = User, content = []\<rparr>, \<lparr>role = Assistant, content = reply\<rparr>]) \<and>
   Chat_request (completion_request (messages (session fresh_app) @ [\<lparr>role = User, content = []\<rparr>]))
     \<in> set (out (text_chat ok_env demo_settings (Some (ascii ''  '')) fresh_app)) \<and>
   length (messages (session (text_chat ok_env demo_settings (Some (ascii ''  '')) fresh_app))) =
     length (messages (session fresh_app)) + 2"
  using whitespace_only_submission
    [where t = "ascii ''  ''" and env = ok_env and w = demo_settings and a = fresh_app]
    spaces_are_space spaces_nonempty
  by (simp add: list_all_iff)

text \<open>
  C10. In every state the program can reach, that is after any sequence of completed
  handlers, the message list is one system turn followed by pairs of a user turn and
  the assistant turn that answers it.
\<close>

theorem reachable_well_shaped:
  "reachable a \<Longrightarrow> well_shaped (messages (session a))"
proof -
  assume "reachable a"
  then obtain rest where "messages (session a) = system_turn # rest" and "alternating rest"
    using reachable_shape by blast
  then show ?thesis
    by (simp add: well_shaped_def system_turn_def)
qed

theorem reachable_well_shaped_witness:
  "reachable (text_chat chat_down_env demo_settings (Some (ascii ''Hello''))
               (record_button ok_env demo_settings fresh_app)) \<and>
   well_shaped (messages (session
     (text_chat chat_down_env demo_settings (Some (ascii ''Hello''))
        (record_button ok_env demo_settings fresh_app))))"
proof -
  have r: "reachable (text_chat chat_down_env demo_settings (Some (ascii ''Hello''))
               (record_button ok_env demo_settings fresh_app))"
    by (intro reachable.by_text reachable.by_record reachable_fresh_app)
  from reachable_well_shaped [OF r] r show ?thesis
    by simp
qed

end
